theory Spec2Isabelle
  imports Complex_Main "HOL-Library.Multiset"
begin

section \<open>Conventions\<close>

text \<open>
  The development embeds the scoring and ranking engine of the AI service
  (\<^verbatim>\<open>app/agents/bounty_matching_agent.py\<close>, \<^verbatim>\<open>app/agents/quality_assessment_agent.py\<close>
  and the schemas of \<^verbatim>\<open>app/models/schemas.py\<close>).

  Python \<^verbatim>\<open>float\<close> values are modelled by \<^typ>\<open>real\<close>: every formula is read with exact
  arithmetic, rounding is not modelled. Python \<^verbatim>\<open>int\<close> is \<^typ>\<open>int\<close>. A \<^verbatim>\<open>str\<close> is a
  \<^typ>\<open>string\<close> whose characters are the code points below 256. Every exception of the
  source is a value \<open>Inl e\<close> of a sum type.
\<close>

datatype error = ZeroDivisionError | ValidationError | ValueError | ParserFailure

section \<open>Data model (app/models/schemas.py)\<close>

datatype ConfidenceLevel = LOW | MEDIUM | HIGH | VERY_HIGH

text \<open>The position of a tier in the order low < medium < high < very_high.\<close>

fun level_rank :: "ConfidenceLevel \<Rightarrow> nat" where
  "level_rank LOW = 0"
| "level_rank MEDIUM = 1"
| "level_rank HIGH = 2"
| "level_rank VERY_HIGH = 3"

record DeveloperProfile =
  address :: string
  skills :: "string list"
  experience_level :: string
  reputation_score :: real
  completed_bounties :: int
  success_rate :: real
  preferred_categories :: "string list"
  availability_hours :: "int option"

text \<open>
  The field \<^verbatim>\<open>id\<close> of \<^verbatim>\<open>BountyRequirements\<close> is named \<open>id_field\<close>. The deadline is
  carried as its ISO text, the form in which the availability scorer receives it.
\<close>

record BountyRequirements =
  id_field :: int
  title :: string
  description_field :: string
  category :: string
  required_skills :: "string list"
  difficulty_level :: string
  estimated_hours :: "int option"
  reward_amount :: real
  deadline :: string

record BountyMatch =
  developer_address :: string
  bounty_id :: int
  compatibility_score :: real
  confidence_level :: ConfidenceLevel
  skill_match_score :: real
  experience_match_score :: real
  availability_match_score :: real
  success_probability :: real
  explanation :: string
  recommended_timeline :: "int option"

record CodeQualityMetrics =
  overall_score :: real
  security_score :: real
  performance_score :: real
  maintainability_score :: real
  documentation_score :: real
  test_coverage_score :: real

section \<open>Confidence tiers\<close>

text \<open>\<^verbatim>\<open>BountyMatchingAgent._determine_confidence_level\<close>.\<close>

definition determine_confidence_level :: "real \<Rightarrow> real \<Rightarrow> ConfidenceLevel" where
  "determine_confidence_level compatibility success_prob =
     (let avg_score = (compatibility + success_prob) / 2 in
      if avg_score \<ge> 0.8 then VERY_HIGH
      else if avg_score \<ge> 0.65 then HIGH
      else if avg_score \<ge> 0.5 then MEDIUM
      else LOW)"

text \<open>\<^verbatim>\<open>QualityAssessmentAgent._determine_confidence_level\<close>.\<close>

definition depth_factor :: "int \<Rightarrow> real" where
  "depth_factor file_count =
     (if file_count \<ge> 10 then 1.0 else if file_count \<ge> 5 then 0.9 else 0.8)"

definition quality_determine_confidence_level :: "CodeQualityMetrics \<Rightarrow> int \<Rightarrow> ConfidenceLevel" where
  "quality_determine_confidence_level metrics file_count =
     (let score = overall_score metrics;
          adjusted_score = score * depth_factor file_count in
      if adjusted_score \<ge> 85 then VERY_HIGH
      else if adjusted_score \<ge> 70 then HIGH
      else if adjusted_score \<ge> 55 then MEDIUM
      else LOW)"

section \<open>Python primitives used by the scorers\<close>

text \<open>\<^verbatim>\<open>d.get(k, default)\<close> on a dictionary given by its items.\<close>

definition dict_get :: "('k \<times> 'v) list \<Rightarrow> 'k \<Rightarrow> 'v \<Rightarrow> 'v" where
  "dict_get d k dflt = (case map_of d k of None \<Rightarrow> dflt | Some v \<Rightarrow> v)"

text \<open>
  \<^verbatim>\<open>str.lower()\<close> on code points below 256: the capital letters are 65..90 and
  192..222 without 215, and the small letter is 32 above, that is bit 5 set.
\<close>

definition isupper :: "char \<Rightarrow> bool" where
  "isupper c =
     (let n = (of_char c :: nat) in
      (65 \<le> n \<and> n \<le> 90) \<or> (192 \<le> n \<and> n \<le> 222 \<and> n \<noteq> 215))"

definition lower_char :: "char \<Rightarrow> char" where
  "lower_char c =
     (if isupper c
      then (case c of Char b0 b1 b2 b3 b4 b5 b6 b7 \<Rightarrow> Char b0 b1 b2 b3 b4 True b6 b7)
      else c)"

definition lower :: "string \<Rightarrow> string" where
  "lower s = map lower_char s"

text \<open>\<^verbatim>\<open>sep.join(parts)\<close>.\<close>

fun str_join :: "string \<Rightarrow> string list \<Rightarrow> string" where
  "str_join sep [] = []"
| "str_join sep [x] = x"
| "str_join sep (x # y # ys) = x @ sep @ str_join sep (y # ys)"

text \<open>Truth-value testing \<^verbatim>\<open>not h\<close> of an \<^verbatim>\<open>Optional[int]\<close>: \<^verbatim>\<open>None\<close> and 0 are false.\<close>

definition py_not :: "int option \<Rightarrow> bool" where
  "py_not h = (case h of None \<Rightarrow> True | Some n \<Rightarrow> n = 0)"

text \<open>True division \<^verbatim>\<open>x / y\<close>, which raises on a zero divisor.\<close>

definition py_truediv :: "real \<Rightarrow> real \<Rightarrow> error + real" where
  "py_truediv x y = (if y = 0 then Inl ZeroDivisionError else Inr (x / y))"

text \<open>\<^verbatim>\<open>int(x)\<close> of a float truncates towards zero.\<close>

definition py_int :: "real \<Rightarrow> int" where
  "py_int x = (if x \<ge> 0 then \<lfloor>x\<rfloor> else \<lceil>x\<rceil>)"

text \<open>The slice \<^verbatim>\<open>xs[:n]\<close>; a negative bound counts from the end.\<close>

definition py_slice_to :: "'a list \<Rightarrow> int \<Rightarrow> 'a list" where
  "py_slice_to xs n =
     (if n \<ge> 0 then take (nat n) xs else take (length xs - nat (- n)) xs)"

section \<open>Feature scorers (app/agents/bounty_matching_agent.py)\<close>

subsection \<open>Skill matching\<close>

text \<open>
  \<^verbatim>\<open>np.max(m, axis=0)\<close> of a matrix given by its rows, and \<^verbatim>\<open>np.mean\<close> of a vector.
  The maximum of a matrix without rows raises.
\<close>

fun np_max_axis0 :: "real list list \<Rightarrow> error + real list" where
  "np_max_axis0 [] = Inl ValueError"
| "np_max_axis0 (row # rows) = Inr (foldl (\<lambda>acc r. map2 max acc r) row rows)"

definition np_mean :: "real list \<Rightarrow> real" where
  "np_mean xs = sum_list xs / real (length xs)"

text \<open>
  \<^verbatim>\<open>SkillMatchingTool._run\<close>. The embedding model and the cosine similarity of two
  embeddings are libraries outside the repository: \<open>encode\<close> gives the embedding of one
  label and \<open>cosine\<close> the similarity of two embeddings. Row \<open>i\<close> of the matrix belongs
  to developer skill \<open>i\<close>, column \<open>j\<close> to required skill \<open>j\<close>.
\<close>

definition skill_run ::
  "(string \<Rightarrow> 'e) \<Rightarrow> ('e \<Rightarrow> 'e \<Rightarrow> real) \<Rightarrow> string list \<Rightarrow> string list \<Rightarrow> error + real" where
  "skill_run encode cosine developer_skills required_skills_arg =
     (if developer_skills = [] \<or> required_skills_arg = [] then Inr 0.0
      else
        let dev_embeddings = map encode developer_skills;
            req_embeddings = map encode required_skills_arg;
            similarity_matrix = map (\<lambda>d. map (\<lambda>r. cosine d r) req_embeddings) dev_embeddings
        in case np_max_axis0 similarity_matrix of
             Inl e \<Rightarrow> Inl e
           | Inr best_matches \<Rightarrow> Inr (np_mean best_matches))"

text \<open>
  The best match of one required skill in the words of the specification: the maximum
  similarity achieved by any developer skill.
\<close>

definition best_match ::
  "(string \<Rightarrow> 'e) \<Rightarrow> ('e \<Rightarrow> 'e \<Rightarrow> real) \<Rightarrow> string list \<Rightarrow> string \<Rightarrow> real" where
  "best_match encode cosine ds r = Max ((\<lambda>d. cosine (encode d) (encode r)) ` set ds)"

text \<open>
  A cosine of two real vectors, to run the scorer on concrete embeddings: the dot
  product over the product of the norms, a zero norm replaced by 1.
\<close>

definition dot :: "real list \<Rightarrow> real list \<Rightarrow> real" where
  "dot u v = sum_list (map2 (*) u v)"

definition cosine_similarity :: "real list \<Rightarrow> real list \<Rightarrow> real" where
  "cosine_similarity u v =
     (let nu = sqrt (dot u u); nv = sqrt (dot v v)
      in dot u v / ((if nu = 0 then 1 else nu) * (if nv = 0 then 1 else nv)))"

subsection \<open>Experience matching\<close>

definition experience_levels :: "(string \<times> int) list" where
  "experience_levels = [(''junior'', 1), (''mid'', 2), (''senior'', 3), (''expert'', 4)]"

definition difficulty_levels :: "(string \<times> int) list" where
  "difficulty_levels = [(''easy'', 1), (''medium'', 2), (''hard'', 3), (''expert'', 4)]"

definition dev_level_of :: "string \<Rightarrow> int" where
  "dev_level_of developer_experience = dict_get experience_levels (lower developer_experience) 2"

definition bounty_level_of :: "string \<Rightarrow> int" where
  "bounty_level_of bounty_difficulty = dict_get difficulty_levels (lower bounty_difficulty) 2"

text \<open>\<^verbatim>\<open>ExperienceMatchingTool._run\<close>.\<close>

definition experience_run :: "string \<Rightarrow> string \<Rightarrow> real \<Rightarrow> real" where
  "experience_run developer_experience bounty_difficulty reputation =
     (let dev_level = dev_level_of developer_experience;
          bounty_level = bounty_level_of bounty_difficulty;
          level_diff = \<bar>dev_level - bounty_level\<bar>;
          base_score = max 0 (1 - real_of_int level_diff * 0.25);
          reputation_factor = min 1.0 (reputation / 10.0)
      in base_score * (0.7 + 0.3 * reputation_factor))"

subsection \<open>Availability matching\<close>

text \<open>
  \<^verbatim>\<open>AvailabilityMatchingTool._run\<close>. The \<^verbatim>\<open>try\<close> block that parses the deadline and
  subtracts the clock is the function \<open>days_until\<close>: \<open>Some d\<close> when it gives \<open>d\<close> days,
  \<open>None\<close> when it raises, and then the bare \<^verbatim>\<open>except\<close> sets 30 days.
\<close>

definition availability_run ::
  "(string \<Rightarrow> int option) \<Rightarrow> int option \<Rightarrow> int option \<Rightarrow> string \<Rightarrow> int \<Rightarrow> error + real" where
  "availability_run days_until developer_hours estimated_hours_arg deadline_arg active_bounties =
     (if py_not developer_hours \<or> py_not estimated_hours_arg then Inr 0.5
      else
        let days_until_deadline = (case days_until deadline_arg of Some d \<Rightarrow> d | None \<Rightarrow> 30);
            weeks_available = max 1 (real_of_int days_until_deadline / 7)
        in case py_truediv (real_of_int (the estimated_hours_arg)) weeks_available of
             Inl e \<Rightarrow> Inl e
           | Inr required_hours_per_week \<Rightarrow>
               let workload_factor = max 0.1 (1 - real_of_int active_bounties * 0.2);
                   available_hours_per_week = real_of_int (the developer_hours) * workload_factor
               in if required_hours_per_week \<le> available_hours_per_week
                  then (case py_truediv available_hours_per_week required_hours_per_week of
                          Inl e \<Rightarrow> Inl e | Inr r \<Rightarrow> Inr (min 1.0 r))
                  else (case py_truediv available_hours_per_week required_hours_per_week of
                          Inl e \<Rightarrow> Inl e | Inr r \<Rightarrow> Inr (max 0.0 r)))"

section \<open>Aggregation (BountyMatchingAgent)\<close>

text \<open>\<^verbatim>\<open>_calculate_success_probability\<close>.\<close>

definition calculate_success_probability ::
  "DeveloperProfile \<Rightarrow> BountyRequirements \<Rightarrow> real \<Rightarrow> real" where
  "calculate_success_probability developer bounty compatibility =
     (let base_prob = compatibility;
          success_factor = success_rate developer;
          reputation_factor = min 1.0 (reputation_score developer / 10.0);
          success_prob = base_prob * (0.5 + 0.3 * success_factor + 0.2 * reputation_factor)
      in min 1.0 success_prob)"

text \<open>\<^verbatim>\<open>_generate_explanation\<close>: the fragment of each dimension, then the join.\<close>

definition skill_fragment :: "real \<Rightarrow> string" where
  "skill_fragment skill_score =
     (if skill_score \<ge> 0.8
      then ''Excellent skill match with strong expertise in required technologies.''
      else if skill_score \<ge> 0.6
      then ''Good skill alignment with most required technologies covered.''
      else ''Partial skill match - may require additional learning or collaboration.'')"

definition experience_fragment :: "real \<Rightarrow> string" where
  "experience_fragment experience_score =
     (if experience_score \<ge> 0.8
      then ''Experience level perfectly matches bounty difficulty.''
      else if experience_score \<ge> 0.6
      then ''Suitable experience level for this bounty complexity.''
      else ''Experience level may not fully align with bounty requirements.'')"

definition availability_fragment :: "real \<Rightarrow> string" where
  "availability_fragment availability_score =
     (if availability_score \<ge> 0.8
      then ''Excellent availability to meet project timeline.''
      else if availability_score \<ge> 0.6
      then ''Adequate availability with manageable timeline.''
      else ''Limited availability may require timeline adjustments.'')"

definition overall_fragment :: "real \<Rightarrow> string" where
  "overall_fragment compatibility =
     (if compatibility \<ge> 0.8
      then ''Highly recommended match with strong success potential.''
      else if compatibility \<ge> 0.6
      then ''Good match with reasonable success probability.''
      else ''Consider alternative matches or provide additional support.'')"

definition generate_explanation ::
  "DeveloperProfile \<Rightarrow> BountyRequirements \<Rightarrow> real \<Rightarrow> real \<Rightarrow> real \<Rightarrow> real \<Rightarrow> string" where
  "generate_explanation developer bounty skill_score experience_score availability_score compatibility =
     (let explanation_parts = [];
          explanation_parts = explanation_parts @ [skill_fragment skill_score];
          explanation_parts = explanation_parts @ [experience_fragment experience_score];
          explanation_parts = explanation_parts @ [availability_fragment availability_score];
          explanation_parts = explanation_parts @ [overall_fragment compatibility]
      in str_join '' '' explanation_parts)"

section \<open>Quality data (app/agents/quality_assessment_agent.py)\<close>

text \<open>
  An issue is a dictionary with the keys type, severity, description and suggestion and,
  for a syntax issue, line_number. The consumers read line_number with \<^verbatim>\<open>.get\<close>, so an
  absent key and the value \<^verbatim>\<open>None\<close> are both \<open>None\<close> here.
\<close>

record issue =
  type_field :: string
  severity :: string
  description :: string
  line_number :: "int option"
  suggestion :: string

text \<open>
  The result dictionaries of the two analysis tools. The aggregator reads every key with
  \<^verbatim>\<open>.get(key, default)\<close>, so each entry is optional; the inner metrics dictionary is
  given by its items.
\<close>

record code_analysis =
  complexity_score_entry :: "real option"
  issues_entry :: "issue list option"
  metrics_entry :: "(string \<times> int) list option"

record doc_analysis =
  documentation_score_entry :: "real option"
  comment_ratio_entry :: "real option"
  readme_score_entry :: "real option"
  doc_issues_entry :: "issue list option"

section \<open>Python string primitives used by the analyzers\<close>

text \<open>\<^verbatim>\<open>s.split(sep)\<close> for a separator of one character; \<open>cur\<close> is the piece being read.\<close>

fun split_acc :: "char \<Rightarrow> string \<Rightarrow> string \<Rightarrow> string list" where
  "split_acc sep cur [] = [cur]"
| "split_acc sep cur (c # cs) =
     (if c = sep then cur # split_acc sep [] cs else split_acc sep (cur @ [c]) cs)"

definition newline :: char where
  "newline = CHR 0x0A"

definition split_lines :: "string \<Rightarrow> string list" where
  "split_lines code = split_acc newline [] code"

text \<open>
  \<^verbatim>\<open>str.isspace\<close> on one code point below 256: 9 to 13, 28 to 32, 133 and 160.
  \<^verbatim>\<open>s.strip()\<close> removes these at both ends.
\<close>

definition isspace :: "char \<Rightarrow> bool" where
  "isspace c =
     (let n = (of_char c :: nat) in
      (9 \<le> n \<and> n \<le> 13) \<or> (28 \<le> n \<and> n \<le> 32) \<or> n = 133 \<or> n = 160)"

definition strip :: "string \<Rightarrow> string" where
  "strip s = rev (dropWhile isspace (rev (dropWhile isspace s)))"

definition startswith :: "string \<Rightarrow> string \<Rightarrow> bool" where
  "startswith s prefix_arg = (take (length prefix_arg) s = prefix_arg)"

text \<open>The substring test \<^verbatim>\<open>sub in s\<close>.\<close>

fun str_contains :: "string \<Rightarrow> string \<Rightarrow> bool" where
  "str_contains sub [] = (sub = [])"
| "str_contains sub (c # cs) = (startswith (c # cs) sub \<or> str_contains sub cs)"

definition triple_double_quote :: string where
  "triple_double_quote = [CHR 0x22, CHR 0x22, CHR 0x22]"

definition triple_single_quote :: string where
  "triple_single_quote = [CHR 0x27, CHR 0x27, CHR 0x27]"

section \<open>Documentation analyzer (DocumentationAnalysisTool)\<close>

text \<open>
  The loop of \<^verbatim>\<open>_calculate_comment_ratio\<close> over the lines, on the pair of counters
  \<open>(comment_lines, code_lines)\<close>.
\<close>

fun count_lines :: "string list \<Rightarrow> nat \<times> nat \<Rightarrow> nat \<times> nat" where
  "count_lines [] counters = counters"
| "count_lines (line # rest) (comment_lines, code_lines) =
     (let stripped = strip line in
      if stripped = [] then count_lines rest (comment_lines, code_lines)
      else if startswith stripped ''#'' \<or> startswith stripped ''//''
              \<or> startswith stripped ''/*''
      then count_lines rest (comment_lines + 1, code_lines)
      else if str_contains triple_double_quote stripped
              \<or> str_contains triple_single_quote stripped
      then count_lines rest (comment_lines + 1, code_lines)
      else count_lines rest (comment_lines, code_lines + 1))"

definition calculate_comment_ratio :: "string \<Rightarrow> real" where
  "calculate_comment_ratio code =
     (let lines = split_lines code;
          (comment_lines, code_lines) = count_lines lines (0, 0)
      in if code_lines = 0 then 0
         else real comment_lines / real (comment_lines + code_lines))"

text \<open>\<^verbatim>\<open>_analyze_readme\<close>.\<close>

definition analyze_readme :: "string \<Rightarrow> real" where
  "analyze_readme readme =
     (if readme = [] then 0
      else
        let readme_lower = lower readme;
            score = 0;
            score = (if str_contains ''installation'' readme_lower
                        \<or> str_contains ''setup'' readme_lower then score + 20 else score);
            score = (if str_contains ''usage'' readme_lower
                        \<or> str_contains ''example'' readme_lower then score + 20 else score);
            score = (if str_contains ''api'' readme_lower
                        \<or> str_contains ''documentation'' readme_lower then score + 15 else score);
            score = (if str_contains ''contributing'' readme_lower then score + 10 else score);
            score = (if str_contains ''license'' readme_lower then score + 10 else score);
            score = (if str_contains ''test'' readme_lower then score + 10 else score);
            score = (if length readme > 500 then score + 15 else score)
        in min 100 score)"

definition low_comment_ratio_issue :: issue where
  "low_comment_ratio_issue =
     \<lparr>type_field = ''documentation'', severity = ''medium'',
      description = ''Low comment ratio detected'', line_number = None,
      suggestion = ''Add more inline comments and docstrings''\<rparr>"

text \<open>\<^verbatim>\<open>DocumentationAnalysisTool._run\<close>.\<close>

definition documentation_run :: "string \<Rightarrow> string \<Rightarrow> doc_analysis" where
  "documentation_run code readme_content =
     (let issues = [];
          comment_ratio = calculate_comment_ratio code;
          issues = (if comment_ratio < 0.1 then issues @ [low_comment_ratio_issue] else issues);
          readme_score = analyze_readme readme_content;
          doc_score = (comment_ratio * 50) + (readme_score * 50)
      in \<lparr>documentation_score_entry = Some (min 100 doc_score),
          comment_ratio_entry = Some comment_ratio,
          readme_score_entry = Some readme_score,
          doc_issues_entry = Some issues\<rparr>)"

text \<open>
  The counts in the words of the specification: blank lines are skipped; a line is a
  comment if, trimmed, it starts with a line-comment or block-comment marker or contains
  a triple-quote delimiter; every other non-blank line is a code line.
\<close>

definition is_blank :: "string \<Rightarrow> bool" where
  "is_blank line = (strip line = [])"

definition is_comment :: "string \<Rightarrow> bool" where
  "is_comment line =
     (startswith (strip line) ''#'' \<or> startswith (strip line) ''//''
      \<or> startswith (strip line) ''/*''
      \<or> str_contains triple_double_quote (strip line)
      \<or> str_contains triple_single_quote (strip line))"

definition spec_comment_lines :: "string \<Rightarrow> nat" where
  "spec_comment_lines code =
     length (filter is_comment (filter (\<lambda>l. \<not> is_blank l) (split_lines code)))"

definition spec_code_lines :: "string \<Rightarrow> nat" where
  "spec_code_lines code =
     length (filter (\<lambda>l. \<not> is_comment l) (filter (\<lambda>l. \<not> is_blank l) (split_lines code)))"

section \<open>Regular expressions (re.search)\<close>

text \<open>
  The two patterns of the Python analyzer use literals, character classes, alternation,
  \<^verbatim>\<open>*\<close> and \<^verbatim>\<open>+\<close>. \<^verbatim>\<open>re.search\<close> asks whether some substring of the text is in the
  language of the pattern, which is decided here with derivatives.
\<close>

datatype regex = Zero | Eps | Sym "char \<Rightarrow> bool" | Seq regex regex | Alt regex regex | Star regex

fun nullable :: "regex \<Rightarrow> bool" where
  "nullable Zero = False"
| "nullable Eps = True"
| "nullable (Sym p) = False"
| "nullable (Seq r s) = (nullable r \<and> nullable s)"
| "nullable (Alt r s) = (nullable r \<or> nullable s)"
| "nullable (Star r) = True"

fun deriv :: "char \<Rightarrow> regex \<Rightarrow> regex" where
  "deriv c Zero = Zero"
| "deriv c Eps = Zero"
| "deriv c (Sym p) = (if p c then Eps else Zero)"
| "deriv c (Seq r s) =
     (if nullable r then Alt (Seq (deriv c r) s) (deriv c s) else Seq (deriv c r) s)"
| "deriv c (Alt r s) = Alt (deriv c r) (deriv c s)"
| "deriv c (Star r) = Seq (deriv c r) (Star r)"

definition re_match :: "regex \<Rightarrow> string \<Rightarrow> bool" where
  "re_match r s = nullable (foldl (\<lambda>r c. deriv c r) r s)"

definition any_char :: regex where
  "any_char = Sym (\<lambda>c. True)"

definition re_search :: "regex \<Rightarrow> string \<Rightarrow> bool" where
  "re_search r s = re_match (Seq (Star any_char) (Seq r (Star any_char))) s"

fun seqs :: "regex list \<Rightarrow> regex" where
  "seqs [] = Eps"
| "seqs [r] = r"
| "seqs (r # rs) = Seq r (seqs rs)"

text \<open>A literal, case-sensitive and under \<^verbatim>\<open>re.IGNORECASE\<close>.\<close>

definition literal :: "string \<Rightarrow> regex" where
  "literal s = seqs (map (\<lambda>c. Sym (\<lambda>x. x = c)) s)"

definition literal_ic :: "string \<Rightarrow> regex" where
  "literal_ic s = seqs (map (\<lambda>c. Sym (\<lambda>x. lower_char x = lower_char c)) s)"

text \<open>
  The classes \<^verbatim>\<open>\s\<close>, \<^verbatim>\<open>.\<close> (every character but the newline), the quote class
  of a double or single quote and its complement, and \<^verbatim>\<open>r+\<close>.
\<close>

definition whitespace :: regex where
  "whitespace = Sym isspace"

definition dot_char :: regex where
  "dot_char = Sym (\<lambda>c. c \<noteq> newline)"

definition quote_char :: regex where
  "quote_char = Sym (\<lambda>c. c = CHR 0x22 \<or> c = CHR 0x27)"

definition not_quote_char :: regex where
  "not_quote_char = Sym (\<lambda>c. \<not> (c = CHR 0x22 \<or> c = CHR 0x27))"

definition plus_rx :: "regex \<Rightarrow> regex" where
  "plus_rx r = Seq r (Star r)"

text \<open>The pattern for a string-interpolated query: execute, an opening parenthesis, a quote, a percent sign, a quote.\<close>

definition sql_injection_pattern :: regex where
  "sql_injection_pattern =
     seqs [literal ''execute'', Star whitespace, literal ''('', Star whitespace,
           quote_char, Star dot_char, literal ''%'', Star dot_char, quote_char]"

text \<open>The pattern for a hardcoded secret, searched with \<^verbatim>\<open>re.IGNORECASE\<close>.\<close>

definition hardcoded_secret_pattern :: regex where
  "hardcoded_secret_pattern =
     seqs [Alt (literal_ic ''password'')
             (Alt (literal_ic ''secret'') (Alt (literal_ic ''key'') (literal_ic ''token''))),
           Star whitespace, literal ''='', Star whitespace,
           quote_char, plus_rx not_quote_char, quote_char]"

section \<open>Python analyzer (CodeAnalysisTool)\<close>

text \<open>
  The syntax tree of the \<^verbatim>\<open>ast\<close> library, reduced to what the complexity count reads:
  the kind of each node and its children.
\<close>

datatype node_kind =
  If_node | While_node | For_node | AsyncFor_node | ExceptHandler_node
  | And_node | Or_node | Other_node

datatype ast = Node node_kind "ast list"

text \<open>
  The outcome of \<^verbatim>\<open>ast.parse(code)\<close>: a tree, a \<^verbatim>\<open>SyntaxError\<close> with its text and its
  \<^verbatim>\<open>lineno\<close>, or another exception, which the analyzer does not catch.
\<close>

datatype parse_outcome = Parsed ast | SyntaxError_raised string "int option" | Other_raised

text \<open>\<^verbatim>\<open>ast.walk\<close>: breadth first, from a queue of nodes still to visit.\<close>

function walk_queue :: "ast list \<Rightarrow> ast list" where
  "walk_queue [] = []"
| "walk_queue (Node k children # todo) = Node k children # walk_queue (todo @ children)"
  by pat_completeness auto
termination
  by (relation "measure (size_list size)") auto

definition ast_walk :: "ast \<Rightarrow> ast list" where
  "ast_walk tree = walk_queue [tree]"

text \<open>\<^verbatim>\<open>_calculate_complexity\<close>.\<close>

definition complexity_step :: "nat \<Rightarrow> ast \<Rightarrow> nat" where
  "complexity_step complexity node =
     (case node of Node k children \<Rightarrow>
        if k = If_node \<or> k = While_node \<or> k = For_node \<or> k = AsyncFor_node
        then complexity + 1
        else if k = ExceptHandler_node then complexity + 1
        else if k = And_node \<or> k = Or_node then complexity + 1
        else complexity)"

definition calculate_complexity :: "ast \<Rightarrow> real" where
  "calculate_complexity tree =
     (let complexity = foldl complexity_step 1 (ast_walk tree)
      in min 10 (real complexity / 5))"

definition eval_issue :: issue where
  "eval_issue =
     \<lparr>type_field = ''security'', severity = ''high'',
      description = ''Use of eval() function detected - security risk'', line_number = None,
      suggestion = ''Use safer alternatives like ast.literal_eval()''\<rparr>"

definition exec_issue :: issue where
  "exec_issue =
     \<lparr>type_field = ''security'', severity = ''high'',
      description = ''Use of exec() function detected - security risk'', line_number = None,
      suggestion = ''Avoid dynamic code execution''\<rparr>"

definition sql_issue :: issue where
  "sql_issue =
     \<lparr>type_field = ''security'', severity = ''critical'',
      description = ''Potential SQL injection vulnerability'', line_number = None,
      suggestion = ''Use parameterized queries''\<rparr>"

definition secret_issue :: issue where
  "secret_issue =
     \<lparr>type_field = ''security'', severity = ''medium'',
      description = ''Potential hardcoded secret detected'', line_number = None,
      suggestion = ''Use environment variables or secure vaults''\<rparr>"

definition syntax_issue :: "string \<Rightarrow> int option \<Rightarrow> issue" where
  "syntax_issue msg lineno =
     \<lparr>type_field = ''syntax'', severity = ''critical'',
      description = ''Syntax error: '' @ msg, line_number = lineno,
      suggestion = ''Fix syntax errors before deployment''\<rparr>"

text \<open>The dictionary returned at the end of \<^verbatim>\<open>_analyze_python_code\<close>.\<close>

definition python_result :: "real \<Rightarrow> issue list \<Rightarrow> string \<Rightarrow> code_analysis" where
  "python_result complexity issues code =
     \<lparr>complexity_score_entry = Some complexity,
      issues_entry = Some issues,
      metrics_entry = Some
        [(''lines_of_code'', int (length (split_lines code))),
         (''security_issues'', int (length (filter (\<lambda>i. type_field i = ''security'') issues))),
         (''style_issues'', 0),
         (''performance_issues'', 0)]\<rparr>"

text \<open>
  \<^verbatim>\<open>CodeAnalysisTool._analyze_python_code\<close>. The parser is the library function
  \<open>ast_parse\<close>. The four scans stand inside the \<^verbatim>\<open>try\<close> block, after the parse.
\<close>

definition analyze_python_code :: "(string \<Rightarrow> parse_outcome) \<Rightarrow> string \<Rightarrow> error + code_analysis" where
  "analyze_python_code ast_parse code =
     (let issues = [] in
      case ast_parse code of
        Parsed tree \<Rightarrow>
          let complexity = calculate_complexity tree;
              issues = (if str_contains ''eval('' code then issues @ [eval_issue] else issues);
              issues = (if str_contains ''exec('' code then issues @ [exec_issue] else issues);
              issues = (if re_search sql_injection_pattern code
                        then issues @ [sql_issue] else issues);
              issues = (if re_search hardcoded_secret_pattern code
                        then issues @ [secret_issue] else issues)
          in Inr (python_result complexity issues code)
      | SyntaxError_raised msg lineno \<Rightarrow>
          let issues = issues @ [syntax_issue msg lineno];
              complexity = 10
          in Inr (python_result complexity issues code)
      | Other_raised \<Rightarrow> Inl ParserFailure)"

section \<open>Quality metrics aggregator\<close>

text \<open>The four reads of \<^verbatim>\<open>_calculate_quality_metrics\<close>, with their defaults.\<close>

definition security_issues_of :: "code_analysis \<Rightarrow> int" where
  "security_issues_of ca =
     dict_get (case metrics_entry ca of None \<Rightarrow> [] | Some m \<Rightarrow> m) ''security_issues'' 0"

definition complexity_of :: "code_analysis \<Rightarrow> real" where
  "complexity_of ca = (case complexity_score_entry ca of None \<Rightarrow> 5 | Some c \<Rightarrow> c)"

definition style_issues_of :: "code_analysis \<Rightarrow> int" where
  "style_issues_of ca =
     dict_get (case metrics_entry ca of None \<Rightarrow> [] | Some m \<Rightarrow> m) ''style_issues'' 0"

definition documentation_score_of :: "doc_analysis \<Rightarrow> real" where
  "documentation_score_of da = (case documentation_score_entry da of None \<Rightarrow> 50 | Some d \<Rightarrow> d)"

text \<open>
  The constructor of \<^verbatim>\<open>CodeQualityMetrics\<close> validates every field against
  \<^verbatim>\<open>Field(ge=0.0, le=100.0)\<close> and raises otherwise.
\<close>

definition in_0_100 :: "real \<Rightarrow> bool" where
  "in_0_100 x = (0 \<le> x \<and> x \<le> 100)"

definition make_CodeQualityMetrics :: "CodeQualityMetrics \<Rightarrow> error + CodeQualityMetrics" where
  "make_CodeQualityMetrics m =
     (if in_0_100 (overall_score m) \<and> in_0_100 (security_score m)
         \<and> in_0_100 (performance_score m) \<and> in_0_100 (maintainability_score m)
         \<and> in_0_100 (documentation_score m) \<and> in_0_100 (test_coverage_score m)
      then Inr m else Inl ValidationError)"

text \<open>\<^verbatim>\<open>QualityAssessmentAgent._calculate_quality_metrics\<close>.\<close>

definition calculate_quality_metrics :: "code_analysis \<Rightarrow> doc_analysis \<Rightarrow> error + CodeQualityMetrics" where
  "calculate_quality_metrics ca da =
     (let security_issues = security_issues_of ca;
          security_score_v = max 0 (100 - (security_issues * 20));
          complexity = complexity_of ca;
          performance_score_v = max 0 (100 - (complexity * 10));
          style_issues = style_issues_of ca;
          maintainability_score_v =
            max 0 (100 - (complexity * 8) - real_of_int (style_issues * 5));
          documentation_score_v = documentation_score_of da;
          test_coverage_score_v = 70;
          overall_score_v =
            real_of_int security_score_v * 0.25 +
            performance_score_v * 0.20 +
            maintainability_score_v * 0.20 +
            documentation_score_v * 0.20 +
            test_coverage_score_v * 0.15
      in make_CodeQualityMetrics
           \<lparr>overall_score = overall_score_v,
            security_score = real_of_int security_score_v,
            performance_score = performance_score_v,
            maintainability_score = maintainability_score_v,
            documentation_score = documentation_score_v,
            test_coverage_score = test_coverage_score_v\<rparr>)"

section \<open>Matching and ranking (BountyMatchingAgent)\<close>

text \<open>
  \<^verbatim>\<open>_estimate_timeline\<close>. The results of its float operations are truncated to
  integers, so their rounding is kept here: \<open>fl x\<close> is the float that the arithmetic
  gives for the exact result \<open>x\<close>, and \<open>fl 0.8\<close>, \<open>fl 1.3\<close> and \<open>fl 1.2\<close> are the float
  literals. The rounding belongs to the arithmetic outside the repository.
\<close>

definition estimate_timeline ::
  "(real \<Rightarrow> real) \<Rightarrow> BountyRequirements \<Rightarrow> DeveloperProfile \<Rightarrow> error + int option" where
  "estimate_timeline fl bounty developer =
     (if py_not (estimated_hours bounty) \<or> py_not (availability_hours developer) then Inr None
      else
        let weekly_hours = fl (real_of_int (the (availability_hours developer)) * fl 0.8)
        in case py_truediv (real_of_int (the (estimated_hours bounty))) weekly_hours of
             Inl e \<Rightarrow> Inl e
           | Inr exact_weeks \<Rightarrow>
               let weeks_needed = fl exact_weeks;
                   days_needed = py_int (fl (weeks_needed * 7));
                   days_needed =
                     (if difficulty_level bounty = ''expert''
                      then py_int (fl (real_of_int days_needed * fl 1.3))
                      else if difficulty_level bounty = ''hard''
                      then py_int (fl (real_of_int days_needed * fl 1.2))
                      else days_needed)
               in Inr (Some (max 7 days_needed)))"

text \<open>
  The constructor of \<^verbatim>\<open>BountyMatch\<close> validates the five score fields against
  \<^verbatim>\<open>Field(ge=0.0, le=1.0)\<close> and raises otherwise.
\<close>

definition in_0_1 :: "real \<Rightarrow> bool" where
  "in_0_1 x = (0 \<le> x \<and> x \<le> 1)"

definition make_BountyMatch :: "BountyMatch \<Rightarrow> error + BountyMatch" where
  "make_BountyMatch m =
     (if in_0_1 (compatibility_score m) \<and> in_0_1 (skill_match_score m)
         \<and> in_0_1 (experience_match_score m) \<and> in_0_1 (availability_match_score m)
         \<and> in_0_1 (success_probability m)
      then Inr m else Inl ValidationError)"

text \<open>
  What the agent takes from outside: the embedding model and the cosine of two
  embeddings, the deadline parser with the clock, the rounding of the float arithmetic,
  and the data access.
\<close>

record 'e collaborators =
  encode :: "string \<Rightarrow> 'e"
  cosine :: "'e \<Rightarrow> 'e \<Rightarrow> real"
  days_until :: "string \<Rightarrow> int option"
  round_float :: "real \<Rightarrow> real"
  get_bounty_data :: "int \<Rightarrow> BountyRequirements"
  get_developer_data :: "string \<Rightarrow> DeveloperProfile"
  get_available_developers :: "DeveloperProfile list"
  get_available_bounties :: "BountyRequirements list"

text \<open>\<^verbatim>\<open>_calculate_match\<close>.\<close>

definition calculate_match ::
  "'e collaborators \<Rightarrow> DeveloperProfile \<Rightarrow> BountyRequirements \<Rightarrow> error + BountyMatch" where
  "calculate_match env developer bounty =
     (case skill_run (encode env) (cosine env) (skills developer) (required_skills bounty) of
        Inl e \<Rightarrow> Inl e
      | Inr skill_score \<Rightarrow>
          let experience_score =
                experience_run (experience_level developer) (difficulty_level bounty)
                  (reputation_score developer)
          in case availability_run (days_until env) (availability_hours developer)
                    (estimated_hours bounty) (deadline bounty) (completed_bounties developer) of
               Inl e \<Rightarrow> Inl e
             | Inr availability_score \<Rightarrow>
                 let compatibility =
                       skill_score * 0.4 + experience_score * 0.3 + availability_score * 0.3;
                     success_prob = calculate_success_probability developer bounty compatibility;
                     confidence = determine_confidence_level compatibility success_prob;
                     explanation_text =
                       generate_explanation developer bounty skill_score experience_score
                         availability_score compatibility
                 in case estimate_timeline (round_float env) bounty developer of
                      Inl e \<Rightarrow> Inl e
                    | Inr timeline \<Rightarrow>
                        make_BountyMatch
                          \<lparr>developer_address = address developer,
                           bounty_id = id_field bounty,
                           compatibility_score = compatibility,
                           confidence_level = confidence,
                           skill_match_score = skill_score,
                           experience_match_score = experience_score,
                           availability_match_score = availability_score,
                           success_probability = success_prob,
                           explanation = explanation_text,
                           recommended_timeline = timeline\<rparr>)"

text \<open>
  The loop of both ranking operations: score each candidate in pool order and append the
  match when its compatibility score reaches the minimum. An exception of the scoring
  leaves the loop.
\<close>

fun match_loop ::
  "('c \<Rightarrow> error + BountyMatch) \<Rightarrow> real \<Rightarrow> 'c list \<Rightarrow> BountyMatch list \<Rightarrow> error + BountyMatch list" where
  "match_loop score_of min_score [] matches_acc = Inr matches_acc"
| "match_loop score_of min_score (candidate # rest) matches_acc =
     (case score_of candidate of
        Inl e \<Rightarrow> Inl e
      | Inr m \<Rightarrow>
          if compatibility_score m \<ge> min_score
          then match_loop score_of min_score rest (matches_acc @ [m])
          else match_loop score_of min_score rest matches_acc)"

text \<open>
  \<^verbatim>\<open>matches.sort(key=lambda x: x.compatibility_score, reverse=True)\<close>: a stable sort into
  descending order of the score, that is a stable ascending sort on the negated score.
\<close>

definition sort_by_score_desc :: "BountyMatch list \<Rightarrow> BountyMatch list" where
  "sort_by_score_desc ms = sort_key (\<lambda>x. - compatibility_score x) ms"

record match_result =
  matches :: "BountyMatch list"
  total_matches :: int

text \<open>\<^verbatim>\<open>_find_developers_for_bounty\<close>.\<close>

definition find_developers_for_bounty ::
  "'e collaborators \<Rightarrow> int \<Rightarrow> int \<Rightarrow> real \<Rightarrow> error + match_result" where
  "find_developers_for_bounty env bounty_id_arg limit_arg min_score =
     (let bounty = get_bounty_data env bounty_id_arg;
          developers = get_available_developers env
      in case match_loop (\<lambda>developer. calculate_match env developer bounty)
                min_score developers [] of
           Inl e \<Rightarrow> Inl e
         | Inr ms \<Rightarrow>
             let ms = sort_by_score_desc ms
             in Inr \<lparr>matches = py_slice_to ms limit_arg, total_matches = int (length ms)\<rparr>)"

text \<open>\<^verbatim>\<open>_find_bounties_for_developer\<close>.\<close>

definition find_bounties_for_developer ::
  "'e collaborators \<Rightarrow> string \<Rightarrow> int \<Rightarrow> real \<Rightarrow> error + match_result" where
  "find_bounties_for_developer env developer_address_arg limit_arg min_score =
     (let developer = get_developer_data env developer_address_arg;
          bounties = get_available_bounties env
      in case match_loop (\<lambda>bounty. calculate_match env developer bounty)
                min_score bounties [] of
           Inl e \<Rightarrow> Inl e
         | Inr ms \<Rightarrow>
             let ms = sort_by_score_desc ms
             in Inr \<lparr>matches = py_slice_to ms limit_arg, total_matches = int (length ms)\<rparr>)"








section \<open>Mock data access (BountyMatchingAgent)\<close>

text \<open>
  \<^verbatim>\<open>_get_bounty_data\<close>, \<^verbatim>\<open>_get_developer_data\<close>, \<^verbatim>\<open>_get_available_developers\<close> and
  \<^verbatim>\<open>_get_available_bounties\<close> return fixed data. The deadline of the mock bounty is
  the clock plus 30 days; \<open>deadline_text\<close> is its ISO text.
\<close>

definition mock_get_bounty_data :: "string \<Rightarrow> int \<Rightarrow> BountyRequirements" where
  "mock_get_bounty_data deadline_text bounty_id_arg =
     \<lparr>id_field = bounty_id_arg,
      title = ''DeFi Analytics Dashboard'',
      description_field = ''Build a comprehensive analytics dashboard for DeFi protocols'',
      category = ''analytics'',
      required_skills = [''React'', ''TypeScript'', ''DeFi'', ''Web3'', ''Chart.js''],
      difficulty_level = ''medium'',
      estimated_hours = Some 120,
      reward_amount = 5000.0,
      deadline = deadline_text\<rparr>"

definition mock_get_developer_data :: "string \<Rightarrow> DeveloperProfile" where
  "mock_get_developer_data address_arg =
     \<lparr>address = address_arg,
      skills = [''React'', ''TypeScript'', ''Python'', ''DeFi'', ''Smart Contracts''],
      experience_level = ''senior'',
      reputation_score = 8.5,
      completed_bounties = 12,
      success_rate = 0.92,
      preferred_categories = [''analytics'', ''defi''],
      availability_hours = Some 30\<rparr>"

definition mock_get_available_developers :: "DeveloperProfile list" where
  "mock_get_available_developers =
     [mock_get_developer_data ''0x1234567890123456789012345678901234567890'',
      mock_get_developer_data ''0xabcdefabcdefabcdefabcdefabcdefabcdefabcd'']"

definition mock_get_available_bounties :: "string \<Rightarrow> BountyRequirements list" where
  "mock_get_available_bounties deadline_text =
     [mock_get_bounty_data deadline_text 1, mock_get_bounty_data deadline_text 2]"

section \<open>Example data\<close>

text \<open>
  Data on which the agent is run in the examples below. The embeddings are unit vectors
  of the plane: Rust and Go are orthogonal, every other label is opposite to Rust. The
  bounty asks for Rust and Go; the bounty 1 is easy, the bounty 2 hard, every other
  one expert. No hours are given, so the availability score is 0.5 and there is no
  timeline. The deadline is 30 days away and the rounding changes no value.
\<close>

definition example_encode :: "string \<Rightarrow> real list" where
  "example_encode label =
     (if label = ''Rust'' then [1, 0] else if label = ''Go'' then [0, 1] else [-1, 0])"






section \<open>Results about the confidence tiers\<close>

lemma match_tier_cases:
  "determine_confidence_level c s =
     (if (c + s) / 2 \<ge> 0.8 then VERY_HIGH
      else if (c + s) / 2 \<ge> 0.65 then HIGH
      else if (c + s) / 2 \<ge> 0.5 then MEDIUM else LOW)"
  by (simp add: determine_confidence_level_def Let_def)

lemma quality_tier_cases:
  "quality_determine_confidence_level m n =
     (if overall_score m * depth_factor n \<ge> 85 then VERY_HIGH
      else if overall_score m * depth_factor n \<ge> 70 then HIGH
      else if overall_score m * depth_factor n \<ge> 55 then MEDIUM else LOW)"
  by (simp add: quality_determine_confidence_level_def Let_def)

lemma match_tier_mono:
  assumes "(c + s) / 2 \<le> (c' + s') / 2"
  shows "level_rank (determine_confidence_level c s)
           \<le> level_rank (determine_confidence_level c' s')"
  using assms unfolding match_tier_cases by (auto split: if_splits)

lemma quality_tier_mono:
  assumes "overall_score m * depth_factor n \<le> overall_score m' * depth_factor n'"
  shows "level_rank (quality_determine_confidence_level m n)
           \<le> level_rank (quality_determine_confidence_level m' n')"
  using assms unfolding quality_tier_cases by (auto split: if_splits)

text \<open>
  Claim C8. The confidence tier is a non-decreasing step function of the averaged score
  on the match path, with steps exactly at 0.5, 0.65 and 0.8, and of the depth-adjusted
  score on the quality path, with steps exactly at 55, 70 and 85, where the depth factor
  is 1.0 for at least 10 files, 0.9 for at least 5 and 0.8 otherwise. A larger averaged
  (or adjusted) score never gives a strictly lower tier.
\<close>

theorem confidence_tier_monotone:
  fixes c s c' s' :: real and m m' :: CodeQualityMetrics and n n' :: int
  defines "a \<equiv> (c + s) / 2"
  defines "q \<equiv> overall_score m * depth_factor n"
  shows "(determine_confidence_level c s = LOW \<longleftrightarrow> a < 0.5)
       \<and> (determine_confidence_level c s = MEDIUM \<longleftrightarrow> 0.5 \<le> a \<and> a < 0.65)
       \<and> (determine_confidence_level c s = HIGH \<longleftrightarrow> 0.65 \<le> a \<and> a < 0.8)
       \<and> (determine_confidence_level c s = VERY_HIGH \<longleftrightarrow> 0.8 \<le> a)
       \<and> (a \<le> (c' + s') / 2 \<longrightarrow>
            level_rank (determine_confidence_level c s)
              \<le> level_rank (determine_confidence_level c' s'))
       \<and> depth_factor n = (if n \<ge> 10 then 1.0 else if n \<ge> 5 then 0.9 else 0.8)
       \<and> (quality_determine_confidence_level m n = LOW \<longleftrightarrow> q < 55)
       \<and> (quality_determine_confidence_level m n = MEDIUM \<longleftrightarrow> 55 \<le> q \<and> q < 70)
       \<and> (quality_determine_confidence_level m n = HIGH \<longleftrightarrow> 70 \<le> q \<and> q < 85)
       \<and> (quality_determine_confidence_level m n = VERY_HIGH \<longleftrightarrow> 85 \<le> q)
       \<and> (q \<le> overall_score m' * depth_factor n' \<longrightarrow>
            level_rank (quality_determine_confidence_level m n)
              \<le> level_rank (quality_determine_confidence_level m' n'))"
proof -
  have 1: "(determine_confidence_level c s = LOW \<longleftrightarrow> a < 0.5)
       \<and> (determine_confidence_level c s = MEDIUM \<longleftrightarrow> 0.5 \<le> a \<and> a < 0.65)
       \<and> (determine_confidence_level c s = HIGH \<longleftrightarrow> 0.65 \<le> a \<and> a < 0.8)
       \<and> (determine_confidence_level c s = VERY_HIGH \<longleftrightarrow> 0.8 \<le> a)"
    unfolding match_tier_cases a_def by auto
  have 2: "(quality_determine_confidence_level m n = LOW \<longleftrightarrow> q < 55)
       \<and> (quality_determine_confidence_level m n = MEDIUM \<longleftrightarrow> 55 \<le> q \<and> q < 70)
       \<and> (quality_determine_confidence_level m n = HIGH \<longleftrightarrow> 70 \<le> q \<and> q < 85)
       \<and> (quality_determine_confidence_level m n = VERY_HIGH \<longleftrightarrow> 85 \<le> q)"
    unfolding quality_tier_cases q_def by auto
  have 3: "depth_factor n = (if n \<ge> 10 then 1.0 else if n \<ge> 5 then 0.9 else 0.8)"
    by (simp add: depth_factor_def)
  show ?thesis
    using 1 2 3 match_tier_mono [of c s c' s'] quality_tier_mono [of m n m' n']
    unfolding a_def q_def by blast
qed

theorem confidence_tier_monotone_witness:
  "((0.6 + 0.5) / 2 \<le> ((0.9::real) + 0.8) / 2)
   \<and> determine_confidence_level 0.6 0.5 = MEDIUM
   \<and> determine_confidence_level 0.9 0.8 = VERY_HIGH
   \<and> level_rank (determine_confidence_level 0.6 0.5)
        \<le> level_rank (determine_confidence_level 0.9 0.8)
   \<and> quality_determine_confidence_level
        \<lparr>overall_score = 80, security_score = 80, performance_score = 80,
         maintainability_score = 80, documentation_score = 80, test_coverage_score = 70\<rparr> 1 = MEDIUM
   \<and> quality_determine_confidence_level
        \<lparr>overall_score = 80, security_score = 80, performance_score = 80,
         maintainability_score = 80, documentation_score = 80, test_coverage_score = 70\<rparr> 10 = HIGH"
  using confidence_tier_monotone [where c = "0.6" and s = "0.5" and c' = "0.9" and s' = "0.8"
      and m = "\<lparr>overall_score = 80, security_score = 80, performance_score = 80,
         maintainability_score = 80, documentation_score = 80, test_coverage_score = 70\<rparr>"
      and m' = "\<lparr>overall_score = 80, security_score = 80, performance_score = 80,
         maintainability_score = 80, documentation_score = 80, test_coverage_score = 70\<rparr>"
      and n = 1 and n' = 10]
  by (simp add: depth_factor_def match_tier_cases quality_tier_cases)

section \<open>Results about the explanation text\<close>

text \<open>
  Claim C9. The explanation is a function of the four scores alone: two runs on the same
  skill, experience, availability and compatibility scores give the same text, whatever
  the developer and the bounty. The text is the four fragments in the order skill,
  experience, availability, overall, joined by single spaces, and each fragment is chosen
  among three templates by the thresholds 0.8 and 0.6 of its own score.
\<close>

theorem explanation_deterministic:
  "generate_explanation d1 b1 s e a c = generate_explanation d2 b2 s e a c
   \<and> generate_explanation d1 b1 s e a c =
       skill_fragment s @ '' '' @ experience_fragment e @ '' '' @
       availability_fragment a @ '' '' @ overall_fragment c
   \<and> skill_fragment s =
       (if s \<ge> 0.8 then ''Excellent skill match with strong expertise in required technologies.''
        else if s \<ge> 0.6 then ''Good skill alignment with most required technologies covered.''
        else ''Partial skill match - may require additional learning or collaboration.'')
   \<and> experience_fragment e =
       (if e \<ge> 0.8 then ''Experience level perfectly matches bounty difficulty.''
        else if e \<ge> 0.6 then ''Suitable experience level for this bounty complexity.''
        else ''Experience level may not fully align with bounty requirements.'')
   \<and> availability_fragment a =
       (if a \<ge> 0.8 then ''Excellent availability to meet project timeline.''
        else if a \<ge> 0.6 then ''Adequate availability with manageable timeline.''
        else ''Limited availability may require timeline adjustments.'')
   \<and> overall_fragment c =
       (if c \<ge> 0.8 then ''Highly recommended match with strong success potential.''
        else if c \<ge> 0.6 then ''Good match with reasonable success probability.''
        else ''Consider alternative matches or provide additional support.'')"
  by (simp add: generate_explanation_def skill_fragment_def experience_fragment_def
      availability_fragment_def overall_fragment_def)

section \<open>Results about the experience score\<close>

lemma experience_run_eq:
  "experience_run d b r =
     max 0 (1 - real_of_int \<bar>dev_level_of d - bounty_level_of b\<bar> * 0.25)
       * (0.7 + 0.3 * min 1 (r / 10))"
  by (simp add: experience_run_def Let_def)

lemma dev_level_range: "1 \<le> dev_level_of d \<and> dev_level_of d \<le> 4"
  by (auto simp add: dev_level_of_def dict_get_def experience_levels_def
      split: option.splits if_splits)

lemma bounty_level_range: "1 \<le> bounty_level_of d \<and> bounty_level_of d \<le> 4"
  by (auto simp add: bounty_level_of_def dict_get_def difficulty_levels_def
      split: option.splits if_splits)

text \<open>
  Claim C3 as stated fails: with equal ordinal levels (senior against hard) and
  reputation 0 the score is 0.7, not 1.0; and with the reputation -100 the score at
  level difference 0 is below the score at level difference 1.
\<close>

theorem experience_equal_levels_counterexample:
  "dev_level_of ''senior'' = bounty_level_of ''hard''
   \<and> experience_run ''senior'' ''hard'' 0 = 0.7
   \<and> experience_run ''senior'' ''hard'' 0 \<noteq> 1.0
   \<and> experience_run ''junior'' ''easy'' (-100) < experience_run ''junior'' ''medium'' (-100)"
  by (simp add: experience_run_eq dev_level_of_def bounty_level_of_def dict_get_def
      experience_levels_def difficulty_levels_def lower_def lower_char_def isupper_def)

text \<open>
  Claim C3, amended. For equal ordinal levels the experience score is
  0.7 + 0.3 * min(1, reputation / 10), which is 1.0 exactly when the reputation is at
  least 10. For every fixed reputation that is not negative, the score is strictly
  smaller at a larger level difference (the differences are 0, 1, 2 and 3).
\<close>

theorem experience_score_amended:
  "(dev_level_of d = bounty_level_of b \<longrightarrow>
      experience_run d b r = 0.7 + 0.3 * min 1 (r / 10)
      \<and> (experience_run d b r = 1 \<longleftrightarrow> r \<ge> 10))
   \<and> \<bar>dev_level_of d1 - bounty_level_of b1\<bar> \<in> {0, 1, 2, 3}
   \<and> (0 \<le> r \<and> \<bar>dev_level_of d1 - bounty_level_of b1\<bar> < \<bar>dev_level_of d2 - bounty_level_of b2\<bar>
        \<longrightarrow> experience_run d2 b2 r < experience_run d1 b1 r)"
proof -
  let ?f = "0.7 + 0.3 * min 1 (r / 10)"
  have A: "dev_level_of d = bounty_level_of b \<longrightarrow>
      experience_run d b r = ?f \<and> (experience_run d b r = 1 \<longleftrightarrow> r \<ge> 10)"
    by (auto simp add: experience_run_eq min_def)
  have B: "experience_run d2 b2 r < experience_run d1 b1 r"
    if r: "0 \<le> r"
    and lt: "\<bar>dev_level_of d1 - bounty_level_of b1\<bar> < \<bar>dev_level_of d2 - bounty_level_of b2\<bar>"
  proof -
    have pos: "0 < ?f" using r by (simp add: min_def)
    let ?k1 = "\<bar>dev_level_of d1 - bounty_level_of b1\<bar>"
    let ?k2 = "\<bar>dev_level_of d2 - bounty_level_of b2\<bar>"
    have k2: "?k2 \<le> 3"
      using dev_level_range [of d2] bounty_level_range [of b2] by linarith
    have "max 0 (1 - real_of_int ?k2 * 0.25) < max 0 (1 - real_of_int ?k1 * 0.25)"
      using lt k2 by (simp add: max_def) linarith
    then show ?thesis
      unfolding experience_run_eq using pos by (simp add: mult_strict_right_mono)
  qed
  have C: "\<bar>dev_level_of d1 - bounty_level_of b1\<bar> \<in> {0, 1, 2, 3}"
    using dev_level_range [of d1] bounty_level_range [of b1] by (simp add: abs_if) linarith
  show ?thesis using A B C by blast
qed

theorem experience_score_amended_witness:
  "dev_level_of ''Senior'' = bounty_level_of ''hard''
   \<and> experience_run ''Senior'' ''hard'' 10 = 1
   \<and> (0::real) \<le> 10
   \<and> \<bar>dev_level_of ''junior'' - bounty_level_of ''easy''\<bar>
       < \<bar>dev_level_of ''junior'' - bounty_level_of ''expert''\<bar>
   \<and> experience_run ''junior'' ''expert'' 10 < experience_run ''junior'' ''easy'' 10"
  using experience_score_amended [of "''Senior''" "''hard''" 10 "''junior''" "''easy''"
      "''junior''" "''expert''"]
  by (simp add: dev_level_of_def bounty_level_of_def dict_get_def
      experience_levels_def difficulty_levels_def lower_def lower_char_def isupper_def)

section \<open>Results about the success probability\<close>

text \<open>
  Claim C6 as stated fails for a negative compatibility score: with success rate 0 and
  reputation 0 the compatibility -1 gives the success probability -0.5, which exceeds
  the compatibility.
\<close>

theorem success_probability_counterexample:
  "calculate_success_probability
     \<lparr>address = ''0x1'', skills = [], experience_level = ''junior'', reputation_score = 0,
      completed_bounties = 0, success_rate = 0, preferred_categories = [],
      availability_hours = None\<rparr> (mock_get_bounty_data ''2030-01-01T00:00:00'' 1) (-1) = -0.5
   \<and> \<not> calculate_success_probability
     \<lparr>address = ''0x1'', skills = [], experience_level = ''junior'', reputation_score = 0,
      completed_bounties = 0, success_rate = 0, preferred_categories = [],
      availability_hours = None\<rparr> (mock_get_bounty_data ''2030-01-01T00:00:00'' 1) (-1) \<le> -1"
  by (simp add: calculate_success_probability_def)

text \<open>
  Claim C6, amended. For a developer with success rate in [0,1] and reputation at least
  0, and every compatibility score that is not negative, the success probability is
  compatibility * (0.5 + 0.3 * success_rate + 0.2 * min(1, reputation / 10)) clamped to
  at most 1, and it never exceeds the compatibility score.
\<close>

theorem success_probability_bounded:
  assumes "0 \<le> success_rate d" "success_rate d \<le> 1" "0 \<le> reputation_score d" "0 \<le> c"
  shows "calculate_success_probability d b c =
           min 1 (c * (0.5 + 0.3 * success_rate d + 0.2 * min 1 (reputation_score d / 10)))
         \<and> calculate_success_probability d b c \<le> c"
proof -
  let ?f = "0.5 + 0.3 * success_rate d + 0.2 * min 1 (reputation_score d / 10)"
  have eq: "calculate_success_probability d b c = min 1 (c * ?f)"
    by (simp add: calculate_success_probability_def Let_def)
  have "?f \<le> 1" using assms by (simp add: min_def)
  then have "c * ?f \<le> c * 1" using assms(4) by (rule mult_left_mono)
  then show ?thesis using eq by simp
qed

theorem success_probability_bounded_witness:
  "calculate_success_probability (mock_get_developer_data ''0x1'')
     (mock_get_bounty_data ''2030-01-01T00:00:00'' 1) 0.5 = 0.473
   \<and> calculate_success_probability (mock_get_developer_data ''0x1'')
     (mock_get_bounty_data ''2030-01-01T00:00:00'' 1) 0.5 \<le> 0.5"
  using success_probability_bounded [of "mock_get_developer_data ''0x1''" "0.5"
      "mock_get_bounty_data ''2030-01-01T00:00:00'' 1"]
  by (simp add: mock_get_developer_data_def)

section \<open>Results about the availability score\<close>

lemma availability_run_returns:
  "\<exists>r. availability_run du dh eh dl ab = Inr r"
proof (cases "py_not dh \<or> py_not eh")
  case True
  then have "availability_run du dh eh dl ab = Inr 0.5"
    by (simp add: availability_run_def)
  then show ?thesis by blast
next
  case False
  then obtain e where e: "eh = Some e" "e \<noteq> 0"
    by (auto simp add: py_not_def split: option.splits)
  define w where "w = max 1 (real_of_int (case du dl of Some d \<Rightarrow> d | None \<Rightarrow> 30) / 7)"
  have w: "w \<ge> 1" by (simp add: w_def)
  then have rq: "real_of_int e / w \<noteq> 0" using e by auto
  show ?thesis
    using False e w rq
    by (auto simp add: availability_run_def Let_def py_truediv_def w_def [symmetric])
qed

text \<open>
  Claim C10. The availability scorer returns exactly 0.5 when either hours value is
  absent and also when either is 0, since both guards test falsiness. Past the guard no
  division has a zero divisor, so the scorer never raises ZeroDivisionError and returns
  a score for every pair of optional integers, every deadline and every workload.
\<close>

theorem availability_neutral_and_total:
  "(dh = None \<or> dh = Some 0 \<or> eh = None \<or> eh = Some 0
      \<longrightarrow> availability_run du dh eh dl ab = Inr 0.5)
   \<and> (\<exists>r. availability_run du dh eh dl ab = Inr r)
   \<and> availability_run du dh eh dl ab \<noteq> Inl ZeroDivisionError"
proof -
  have "dh = None \<or> dh = Some 0 \<or> eh = None \<or> eh = Some 0
      \<longrightarrow> availability_run du dh eh dl ab = Inr 0.5"
    by (auto simp add: availability_run_def py_not_def)
  moreover obtain r where "availability_run du dh eh dl ab = Inr r"
    using availability_run_returns by blast
  ultimately show ?thesis by simp
qed

theorem availability_neutral_and_total_witness:
  "availability_run (\<lambda>_. Some 29) (Some 0) (Some 120) ''2030-01-01T00:00:00'' 12 = Inr 0.5
   \<and> availability_run (\<lambda>_. Some 29) (Some 30) (Some 0) ''2030-01-01T00:00:00'' 12 = Inr 0.5
   \<and> availability_run (\<lambda>_. Some 29) None (Some 120) ''2030-01-01T00:00:00'' 12 = Inr 0.5
   \<and> availability_run (\<lambda>_. Some 29) (Some 30) (Some 120) ''2030-01-01T00:00:00'' 12
       = Inr (87 / 840)"
  using availability_neutral_and_total [of "Some 0" "Some 120" "\<lambda>_. Some 29"
      "''2030-01-01T00:00:00''" 12]
    availability_neutral_and_total [of "Some 30" "Some 0" "\<lambda>_. Some 29"
      "''2030-01-01T00:00:00''" 12]
    availability_neutral_and_total [of "None" "Some 120" "\<lambda>_. Some 29"
      "''2030-01-01T00:00:00''" 12]
  by (simp add: availability_run_def py_not_def py_truediv_def)

section \<open>Results about the quality metrics\<close>

text \<open>
  Claim C5. With the security issue count, the complexity score, the style issue count
  and the documentation score read from the two analyses, the aggregator computes
  security_score = max(0, 100 - 20 * security issues),
  performance_score = max(0, 100 - 10 * complexity),
  maintainability_score = max(0, 100 - 8 * complexity - 5 * style issues),
  test_coverage_score = 70 and overall_score as the weighted sum with the weights
  0.25, 0.20, 0.20, 0.20 and 0.15, which sum to 1. The metrics object is built exactly
  when every score lies in [0,100], which holds for counts and complexity that are not
  negative and a documentation score in [0,100]. With all counts and the complexity 0
  the overall score is 0.25*100 + 0.20*100 + 0.20*100 + documentation_score*0.20 + 0.15*70.
\<close>

theorem quality_metrics_formulas:
  fixes ca :: code_analysis and da :: doc_analysis
  defines "sec \<equiv> security_issues_of ca"
  defines "cx \<equiv> complexity_of ca"
  defines "sty \<equiv> style_issues_of ca"
  defines "doc \<equiv> documentation_score_of da"
  defines "S \<equiv> max 0 (100 - 20 * real_of_int sec)"
  defines "P \<equiv> max 0 (100 - 10 * cx)"
  defines "M \<equiv> max 0 (100 - 8 * cx - 5 * real_of_int sty)"
  shows "calculate_quality_metrics ca da =
           (if 0 \<le> sec \<and> 0 \<le> cx \<and> 0 \<le> 8 * cx + 5 * real_of_int sty \<and> 0 \<le> doc \<and> doc \<le> 100
            then Inr \<lparr>overall_score = 0.25 * S + 0.20 * P + 0.20 * M + 0.20 * doc + 0.15 * 70,
                      security_score = S, performance_score = P, maintainability_score = M,
                      documentation_score = doc, test_coverage_score = 70\<rparr>
            else Inl ValidationError)
         \<and> (0.25 + 0.20 + 0.20 + 0.20 + 0.15 = (1::real))
         \<and> (sec = 0 \<and> sty = 0 \<and> cx = 0 \<and> 0 \<le> doc \<and> doc \<le> 100 \<longrightarrow>
              (\<exists>m. calculate_quality_metrics ca da = Inr m
                 \<and> overall_score m = 0.25 * 100 + 0.20 * 100 + 0.20 * 100 + doc * 0.20 + 0.15 * 70))"
proof -
  have Sr: "real_of_int (max 0 (100 - sec * 20)) = S"
    by (simp add: S_def max_def)
  have Mr: "max 0 (100 - cx * 8 - real_of_int (sty * 5)) = M"
    by (simp add: M_def mult.commute)
  have Pr: "max 0 (100 - cx * 10) = P"
    by (simp add: P_def mult.commute)
  have unfold: "calculate_quality_metrics ca da =
      make_CodeQualityMetrics
        \<lparr>overall_score = 0.25 * S + 0.20 * P + 0.20 * M + 0.20 * doc + 0.15 * 70,
         security_score = S, performance_score = P, maintainability_score = M,
         documentation_score = doc, test_coverage_score = 70\<rparr>"
    unfolding calculate_quality_metrics_def Let_def Sr Mr Pr
      sec_def [symmetric] cx_def [symmetric] sty_def [symmetric] doc_def [symmetric]
    by (simp add: mult.commute)
  have S0: "0 \<le> S" and P0: "0 \<le> P" and M0: "0 \<le> M"
    by (simp_all add: S_def P_def M_def)
  have S1: "S \<le> 100 \<longleftrightarrow> 0 \<le> sec" by (simp add: S_def max_def)
  have P1: "P \<le> 100 \<longleftrightarrow> 0 \<le> cx" by (simp add: P_def max_def)
  have M1: "M \<le> 100 \<longleftrightarrow> 0 \<le> 8 * cx + 5 * real_of_int sty" by (auto simp add: M_def max_def)
  have O: "in_0_100 (0.25 * S + 0.20 * P + 0.20 * M + 0.20 * doc + 0.15 * 70)"
    if "S \<le> 100" "P \<le> 100" "M \<le> 100" "0 \<le> doc" "doc \<le> 100"
    using that S0 P0 M0 by (simp add: in_0_100_def)
  have main: "calculate_quality_metrics ca da =
           (if 0 \<le> sec \<and> 0 \<le> cx \<and> 0 \<le> 8 * cx + 5 * real_of_int sty \<and> 0 \<le> doc \<and> doc \<le> 100
            then Inr \<lparr>overall_score = 0.25 * S + 0.20 * P + 0.20 * M + 0.20 * doc + 0.15 * 70,
                      security_score = S, performance_score = P, maintainability_score = M,
                      documentation_score = doc, test_coverage_score = 70\<rparr>
            else Inl ValidationError)"
    unfolding unfold make_CodeQualityMetrics_def
    using O S0 P0 M0 S1 P1 M1 by (auto simp add: in_0_100_def)
  have zero: "\<exists>m. calculate_quality_metrics ca da = Inr m
                 \<and> overall_score m = 0.25 * 100 + 0.20 * 100 + 0.20 * 100 + doc * 0.20 + 0.15 * 70"
    if "sec = 0" "sty = 0" "cx = 0" "0 \<le> doc" "doc \<le> 100"
    unfolding main using that by (simp add: S_def P_def M_def)
  show ?thesis using main zero by simp
qed

theorem quality_metrics_formulas_witness:
  "calculate_quality_metrics
     \<lparr>complexity_score_entry = Some 0, issues_entry = Some [],
      metrics_entry = Some [(''lines_of_code'', 3), (''security_issues'', 0),
                            (''style_issues'', 0), (''performance_issues'', 0)]\<rparr>
     \<lparr>documentation_score_entry = Some 30, comment_ratio_entry = Some 0.6,
      readme_score_entry = Some 0, doc_issues_entry = Some []\<rparr>
   = Inr \<lparr>overall_score = 81.5, security_score = 100, performance_score = 100,
          maintainability_score = 100, documentation_score = 30, test_coverage_score = 70\<rparr>
   \<and> calculate_quality_metrics
     \<lparr>complexity_score_entry = Some 2, issues_entry = Some [],
      metrics_entry = Some [(''lines_of_code'', 3), (''security_issues'', 1),
                            (''style_issues'', 2), (''performance_issues'', 0)]\<rparr>
     \<lparr>documentation_score_entry = Some 30, comment_ratio_entry = Some 0.6,
      readme_score_entry = Some 0, doc_issues_entry = Some []\<rparr>
   = Inr \<lparr>overall_score = 67.3, security_score = 80, performance_score = 80,
          maintainability_score = 74, documentation_score = 30, test_coverage_score = 70\<rparr>"
  using quality_metrics_formulas [where
      ca = "\<lparr>complexity_score_entry = Some 0, issues_entry = Some [],
      metrics_entry = Some [(''lines_of_code'', 3), (''security_issues'', 0),
                            (''style_issues'', 0), (''performance_issues'', 0)]\<rparr>"
      and da = "\<lparr>documentation_score_entry = Some 30, comment_ratio_entry = Some 0.6,
      readme_score_entry = Some 0, doc_issues_entry = Some []\<rparr>"]
    quality_metrics_formulas [where
      ca = "\<lparr>complexity_score_entry = Some 2, issues_entry = Some [],
      metrics_entry = Some [(''lines_of_code'', 3), (''security_issues'', 1),
                            (''style_issues'', 2), (''performance_issues'', 0)]\<rparr>"
      and da = "\<lparr>documentation_score_entry = Some 30, comment_ratio_entry = Some 0.6,
      readme_score_entry = Some 0, doc_issues_entry = Some []\<rparr>"]
  by (simp add: security_issues_of_def complexity_of_def style_issues_of_def
      documentation_score_of_def dict_get_def)

section \<open>Results about the skill score\<close>

lemma map2_max_maps:
  "map2 max (map f rs) (map g rs) = map (\<lambda>r. max (f r) (g r)) rs"
  by (induction rs) auto

lemma column_max_fold:
  "foldl (\<lambda>acc row. map2 max acc row) (map f rs) (map (\<lambda>d. map (c d) rs) ds)
     = map (\<lambda>r. foldl max (f r) (map (\<lambda>d. c d r) ds)) rs"
proof (induction ds arbitrary: f)
  case Nil
  then show ?case by simp
next
  case (Cons d ds)
  show ?case
    using Cons.IH [of "\<lambda>r. max (f r) (c d r)"]
    by (simp add: map2_max_maps)
qed

lemma foldl_max_Max:
  fixes a :: real
  shows "foldl max a xs = Max (set (a # xs))"
proof -
  have "(\<lambda>x y. max y x) = (max :: real \<Rightarrow> real \<Rightarrow> real)"
    by (intro ext) (simp add: max.commute)
  then have "foldl max a xs = fold max xs a"
    by (simp add: foldl_conv_fold)
  then show ?thesis
    using Max.set_eq_fold [of a xs] by simp
qed

lemma best_matches_columns:
  "foldl (map2 max) (map (\<lambda>x. sim (enc d) (enc x)) rs)
       (map (\<lambda>x. map (\<lambda>xa. sim (enc x) (enc xa)) rs) ds')
     = map (best_match enc sim (d # ds')) rs"
proof -
  have "foldl (map2 max) (map (\<lambda>x. sim (enc d) (enc x)) rs)
       (map (\<lambda>x. map (\<lambda>xa. sim (enc x) (enc xa)) rs) ds')
     = map (\<lambda>r. foldl max (sim (enc d) (enc r)) (map (\<lambda>x. sim (enc x) (enc r)) ds')) rs"
    using column_max_fold [of "\<lambda>x. sim (enc d) (enc x)" rs "\<lambda>x xa. sim (enc x) (enc xa)" ds']
    by simp
  also have "\<dots> = map (best_match enc sim (d # ds')) rs"
    unfolding foldl_max_Max best_match_def by (simp add: image_image)
  finally show ?thesis .
qed

lemma skill_run_nonempty:
  assumes "ds \<noteq> []" "rs \<noteq> []"
  shows "skill_run enc sim ds rs =
           Inr ((\<Sum>r\<leftarrow>rs. best_match enc sim ds r) / real (length rs))"
proof -
  obtain d ds' where ds: "ds = d # ds'" using assms(1) by (cases ds) auto
  show ?thesis
    using assms(2)
    by (simp add: skill_run_def Let_def ds np_mean_def comp_def best_matches_columns)
qed

text \<open>
  Claim C7 as stated fails: two non-empty lists whose embeddings are orthogonal score 0,
  so the score is 0 without an empty list.
\<close>

theorem skill_score_counterexample:
  "skill_run example_encode cosine_similarity [''Rust''] [''Go''] = Inr 0
   \<and> [''Rust''] \<noteq> [] \<and> [''Go''] \<noteq> []"
  by (simp add: skill_run_def np_mean_def cosine_similarity_def dot_def example_encode_def)

text \<open>
  Claim C7, amended. The skill matching score is 0 if either list is empty. For
  non-empty lists it is the mean, over the required skills, of the maximum similarity
  that any developer skill achieves (best match per requirement).
\<close>

theorem skill_score_amended:
  "(ds = [] \<or> rs = [] \<longrightarrow> skill_run enc sim ds rs = Inr 0)
   \<and> (ds \<noteq> [] \<and> rs \<noteq> [] \<longrightarrow>
        skill_run enc sim ds rs
          = Inr ((\<Sum>r\<leftarrow>rs. best_match enc sim ds r) / real (length rs)))"
proof -
  have A: "ds = [] \<or> rs = [] \<longrightarrow> skill_run enc sim ds rs = Inr 0"
    by (auto simp add: skill_run_def)
  show ?thesis using A skill_run_nonempty by blast
qed

theorem skill_score_amended_witness:
  "skill_run example_encode cosine_similarity [''Rust'', ''Go''] [''Go'', ''Rust'', ''Go'']
     = Inr 1
   \<and> skill_run example_encode cosine_similarity [''Rust''] [''Go'', ''Rust''] = Inr (1 / 2)
   \<and> skill_run example_encode cosine_similarity [] [''Go''] = Inr 0
   \<and> best_match example_encode cosine_similarity [''Rust'', ''Go''] ''Go'' = 1"
  using skill_score_amended [where enc = example_encode
      and sim = cosine_similarity and ds = "[''Rust'', ''Go'']"
      and rs = "[''Go'', ''Rust'', ''Go'']"]
    skill_score_amended [where enc = example_encode
      and sim = cosine_similarity and ds = "[''Rust'']" and rs = "[''Go'', ''Rust'']"]
    skill_score_amended [where enc = example_encode
      and sim = cosine_similarity and ds = "[]" and rs = "[''Go'']"]
  by (simp add: cosine_similarity_def dot_def best_match_def example_encode_def)

section \<open>Results about the comment ratio\<close>

lemma count_lines_filter:
  "count_lines ls (a, b) =
     (a + length (filter is_comment (filter (\<lambda>l. \<not> is_blank l) ls)),
      b + length (filter (\<lambda>l. \<not> is_comment l) (filter (\<lambda>l. \<not> is_blank l) ls)))"
  by (induction ls arbitrary: a b) (auto simp add: Let_def is_blank_def is_comment_def)

lemma comment_ratio_counts:
  "calculate_comment_ratio code =
     (if spec_code_lines code = 0 then 0
      else real (spec_comment_lines code)
             / real (spec_comment_lines code + spec_code_lines code))"
  by (simp add: calculate_comment_ratio_def Let_def count_lines_filter
      spec_code_lines_def spec_comment_lines_def)

lemma strip_plain: "strip ''# only a comment'' = ''# only a comment''"
  by (simp add: strip_def isspace_def)

text \<open>
  Claim C4 as stated fails: the guard tests the number of code lines, not the number of
  non-blank lines. A text whose only non-blank line is a comment has one comment line
  and no code line; the formula gives 1, the analyzer returns 0.
\<close>

theorem comment_ratio_counterexample:
  "spec_comment_lines ''# only a comment'' = 1
   \<and> spec_code_lines ''# only a comment'' = 0
   \<and> calculate_comment_ratio ''# only a comment'' = 0
   \<and> calculate_comment_ratio ''# only a comment''
       \<noteq> real (spec_comment_lines ''# only a comment'')
           / real (spec_comment_lines ''# only a comment'' + spec_code_lines ''# only a comment'')"
  by (simp add: comment_ratio_counts spec_comment_lines_def spec_code_lines_def split_lines_def
      newline_def is_blank_def is_comment_def strip_plain startswith_def)

text \<open>
  Claim C4, amended. With blank lines skipped and a line counted as a comment if,
  trimmed, it starts with a line-comment or block-comment marker or contains a
  triple-quote delimiter, the comment ratio is 0 whenever there is no code line (a
  non-blank line that is no comment), which includes every text whose non-blank lines
  are all comments; otherwise it is comment_lines / (comment_lines + code_lines). The
  medium-severity documentation issue is flagged exactly when the ratio is below 0.1.
\<close>

theorem comment_ratio_amended:
  "calculate_comment_ratio code =
     (if spec_code_lines code = 0 then 0
      else real (spec_comment_lines code)
             / real (spec_comment_lines code + spec_code_lines code))
   \<and> doc_issues_entry (documentation_run code readme) =
       Some (if calculate_comment_ratio code < 0.1 then [low_comment_ratio_issue] else [])
   \<and> severity low_comment_ratio_issue = ''medium''
   \<and> type_field low_comment_ratio_issue = ''documentation''
   \<and> comment_ratio_entry (documentation_run code readme) = Some (calculate_comment_ratio code)"
  using comment_ratio_counts [of code]
  by (simp add: documentation_run_def Let_def low_comment_ratio_issue_def)

theorem comment_ratio_amended_witness:
  "calculate_comment_ratio (''# c'' @ [newline] @ ''x = 1'' @ [newline] @ [newline] @ ''  y = 2'')
     = 1 / 3
   \<and> doc_issues_entry (documentation_run
         (''# c'' @ [newline] @ ''x = 1'' @ [newline] @ [newline] @ ''  y = 2'') [])
       = Some []
   \<and> doc_issues_entry (documentation_run ''x = 1'' []) = Some [low_comment_ratio_issue]"
  using comment_ratio_amended [of
      "''# c'' @ [newline] @ ''x = 1'' @ [newline] @ [newline] @ ''  y = 2''" "[]"]
    comment_ratio_amended [of "''x = 1''" "[]"]
  by (simp add: spec_comment_lines_def spec_code_lines_def split_lines_def
      newline_def is_blank_def is_comment_def strip_def isspace_def startswith_def
      triple_double_quote_def triple_single_quote_def)

section \<open>Results about the Python analyzer\<close>

lemmas rx_defs = re_search_def re_match_def sql_injection_pattern_def hardcoded_secret_pattern_def
  literal_def literal_ic_def whitespace_def dot_char_def quote_char_def not_quote_char_def
  plus_rx_def any_char_def isspace_def newline_def lower_char_def isupper_def

text \<open>
  Claim C2 as stated fails: the four scans are inside the \<^verbatim>\<open>try\<close> block after the
  parse, so a parse failure skips them. For the unparseable text \<^verbatim>\<open>eval(user_input\<close>,
  on which the parser raises a syntax error at line 1, the issue list holds the syntax
  issue alone and the count of security issues is 0.
\<close>

theorem python_scan_counterexample:
  "str_contains ''eval('' ''eval(user_input''
   \<and> analyze_python_code (\<lambda>code. SyntaxError_raised ''( was never closed (<unknown>, line 1)'' (Some 1))
        ''eval(user_input''
       = Inr \<lparr>complexity_score_entry = Some 10,
              issues_entry = Some [syntax_issue ''( was never closed (<unknown>, line 1)'' (Some 1)],
              metrics_entry = Some [(''lines_of_code'', 1), (''security_issues'', 0),
                                    (''style_issues'', 0), (''performance_issues'', 0)]\<rparr>
   \<and> eval_issue \<noteq> syntax_issue ''( was never closed (<unknown>, line 1)'' (Some 1)"
  by (simp add: analyze_python_code_def python_result_def syntax_issue_def eval_issue_def
      split_lines_def newline_def startswith_def)

text \<open>
  Claim C2, amended. The Python analyzer runs the four security pattern scans
  (dynamic evaluation, dynamic execution, string-interpolated query execution, and the
  case-insensitive password/secret/key/token assignment to a literal) on the raw text
  when the source parses, and the issue list is then the issues of the scans that
  matched, in this order. For an unparseable source the scans do not run: the issue list
  is exactly the critical syntax issue carrying the line number of the parse failure,
  the count of security issues is 0 and complexity_score is 10.
\<close>

theorem python_scans_amended:
  "(ast_parse code = SyntaxError_raised msg lineno \<longrightarrow>
      analyze_python_code ast_parse code
        = Inr \<lparr>complexity_score_entry = Some 10,
               issues_entry = Some [syntax_issue msg lineno],
               metrics_entry = Some [(''lines_of_code'', int (length (split_lines code))),
                                     (''security_issues'', 0), (''style_issues'', 0),
                                     (''performance_issues'', 0)]\<rparr>)
   \<and> (ast_parse code = Parsed tree \<longrightarrow>
      analyze_python_code ast_parse code
        = Inr (python_result (calculate_complexity tree)
                ((if str_contains ''eval('' code then [eval_issue] else [])
                 @ (if str_contains ''exec('' code then [exec_issue] else [])
                 @ (if re_search sql_injection_pattern code then [sql_issue] else [])
                 @ (if re_search hardcoded_secret_pattern code then [secret_issue] else []))
                code))
   \<and> type_field (syntax_issue msg lineno) = ''syntax''
   \<and> severity (syntax_issue msg lineno) = ''critical''
   \<and> line_number (syntax_issue msg lineno) = lineno
   \<and> type_field eval_issue = ''security'' \<and> type_field exec_issue = ''security''
   \<and> type_field sql_issue = ''security'' \<and> type_field secret_issue = ''security''
   \<and> severity eval_issue = ''high'' \<and> severity exec_issue = ''high''
   \<and> severity sql_issue = ''critical'' \<and> severity secret_issue = ''medium''"
proof -
  have A: "analyze_python_code ast_parse code
        = Inr \<lparr>complexity_score_entry = Some 10,
               issues_entry = Some [syntax_issue msg lineno],
               metrics_entry = Some [(''lines_of_code'', int (length (split_lines code))),
                                     (''security_issues'', 0), (''style_issues'', 0),
                                     (''performance_issues'', 0)]\<rparr>"
    if "ast_parse code = SyntaxError_raised msg lineno"
    using that by (simp add: analyze_python_code_def python_result_def syntax_issue_def)
  have B: "analyze_python_code ast_parse code
        = Inr (python_result (calculate_complexity tree)
                ((if str_contains ''eval('' code then [eval_issue] else [])
                 @ (if str_contains ''exec('' code then [exec_issue] else [])
                 @ (if re_search sql_injection_pattern code then [sql_issue] else [])
                 @ (if re_search hardcoded_secret_pattern code then [secret_issue] else []))
                code)"
    if "ast_parse code = Parsed tree"
    using that by (simp add: analyze_python_code_def Let_def)
  have C: "type_field (syntax_issue msg lineno) = ''syntax''
   \<and> severity (syntax_issue msg lineno) = ''critical''
   \<and> line_number (syntax_issue msg lineno) = lineno
   \<and> type_field eval_issue = ''security'' \<and> type_field exec_issue = ''security''
   \<and> type_field sql_issue = ''security'' \<and> type_field secret_issue = ''security''
   \<and> severity eval_issue = ''high'' \<and> severity exec_issue = ''high''
   \<and> severity sql_issue = ''critical'' \<and> severity secret_issue = ''medium''"
    by (simp add: syntax_issue_def eval_issue_def exec_issue_def sql_issue_def secret_issue_def)
  show ?thesis using A B C by blast
qed

lemma scan_eval_example:
  "str_contains ''eval('' ''x = eval(y)'' \<and> \<not> str_contains ''exec('' ''x = eval(y)''
   \<and> \<not> re_search sql_injection_pattern ''x = eval(y)''
   \<and> \<not> re_search hardcoded_secret_pattern ''x = eval(y)''"
  by (simp add: rx_defs startswith_def)

theorem python_scans_amended_witness:
  "analyze_python_code (\<lambda>code. SyntaxError_raised ''( was never closed (<unknown>, line 1)'' (Some 1))
        ''eval(user_input''
       = Inr \<lparr>complexity_score_entry = Some 10,
              issues_entry = Some [syntax_issue ''( was never closed (<unknown>, line 1)'' (Some 1)],
              metrics_entry = Some [(''lines_of_code'', 1), (''security_issues'', 0),
                                    (''style_issues'', 0), (''performance_issues'', 0)]\<rparr>
   \<and> analyze_python_code (\<lambda>code. Parsed (Node Other_node [])) ''x = eval(y)''
       = Inr \<lparr>complexity_score_entry = Some (1 / 5),
              issues_entry = Some [eval_issue],
              metrics_entry = Some [(''lines_of_code'', 1), (''security_issues'', 1),
                                    (''style_issues'', 0), (''performance_issues'', 0)]\<rparr>"
  using python_scans_amended [where
      ast_parse = "\<lambda>code. SyntaxError_raised ''( was never closed (<unknown>, line 1)'' (Some 1)"
      and code = "''eval(user_input''" and msg = "''( was never closed (<unknown>, line 1)''"
      and lineno = "Some 1"]
    python_scans_amended [where
      ast_parse = "\<lambda>code. Parsed (Node Other_node [])"
      and code = "''x = eval(y)''" and tree = "Node Other_node []"]
    scan_eval_example
  by (simp add: python_result_def split_lines_def newline_def calculate_complexity_def
      ast_walk_def complexity_step_def eval_issue_def)

section \<open>Results about the ranking\<close>


lemma match_loop_failure:
  "\<exists>c \<in> set cs. isl (f c) \<Longrightarrow> isl (match_loop f lo cs acc)"
  by (induction cs arbitrary: acc) (auto split: sum.splits)












lemma find_developers_failure:
  assumes "\<exists>d \<in> set (get_available_developers env).
             isl (calculate_match env d (get_bounty_data env bid))"
  shows "isl (find_developers_for_bounty env bid limit lo)"
  using match_loop_failure [of "get_available_developers env"
      "\<lambda>d. calculate_match env d (get_bounty_data env bid)" lo "[]"] assms
  by (auto simp add: find_developers_for_bounty_def Let_def split: sum.splits)

lemma find_bounties_failure:
  assumes "\<exists>b \<in> set (get_available_bounties env).
             isl (calculate_match env (get_developer_data env addr) b)"
  shows "isl (find_bounties_for_developer env addr limit lo)"
  using match_loop_failure [of "get_available_bounties env"
      "\<lambda>b. calculate_match env (get_developer_data env addr) b" lo "[]"] assms
  by (auto simp add: find_bounties_for_developer_def Let_def split: sum.splits)













end
